theory Spec2Isabelle
  imports Main "HOL-Library.Multiset"
begin

section \<open>Data model\<close>

text \<open>
  The tables of the hosted database, as the setup SQL declares them and as the
  TypeScript handlers read and write them. Row identifiers are UUID strings.
  Columns filled by database defaults alone (\<open>created_at\<close>, \<open>updated_at\<close>) are
  never read by the handlers modelled here and are left out.
\<close>

type_synonym uuid = string
type_synonym timestamp = string

datatype doc_status = draft | pending_approval | approved | rejected | in_progress | completed

datatype approver_status = a_pending | a_approved | a_rejected

datatype signer_status = s_pending | s_signed | s_rejected

datatype update_type =
  created | u_approved | u_rejected | signing_started | signature_received
  | u_completed | general_update

record user =
  u_id :: uuid
  email :: string
  employee_code :: string
  full_name :: string
  is_admin :: bool

record document =
  d_id :: uuid
  title :: string
  description :: string
  document_url :: string
  created_by :: "uuid option"
  d_status :: doc_status

record approver =
  a_id :: uuid
  a_document_id :: uuid
  a_user_id :: uuid
  a_order :: nat
  a_status :: approver_status
  a_comments :: "string option"
  approved_at :: "timestamp option"

record external_signer =
  s_id :: uuid
  s_document_id :: uuid
  s_name :: string
  s_designation :: string
  s_order :: nat
  s_status :: signer_status
  signed_at :: "timestamp option"
  s_comments :: "string option"

record status_update =
  su_document_id :: uuid
  updated_by :: "uuid option"
  su_update_type :: update_type
  message :: string

record db =
  users :: "user list"
  documents :: "document list"
  approvers :: "approver list"
  external_signers :: "external_signer list"
  status_updates :: "status_update list"

section \<open>The gateway\<close>

text \<open>
  Every call of the database client returns either data or an error object. Which
  requests come back with an error is an input of the model: \<open>fails r\<close> holds when
  request \<open>r\<close> returns an error, and a request that returns an error writes nothing.
\<close>

datatype request =
  UploadFile | InsertDocument | InsertApprovers | InsertSigners | InsertStatusUpdate
  | UpdateApprover | SelectApprovers | UpdateDocument | UpdateSigner
  | AuthSignUp | InsertUser

datatype failure =
  ValidationError "string list"
  | GatewayError request
  | NoFileSelected

definition no_faults :: "request \<Rightarrow> bool" where
  "no_faults r = False"

definition document_status :: "db \<Rightarrow> uuid \<Rightarrow> doc_status option" where
  "document_status s d = map_option d_status (find (\<lambda>x. d_id x = d) (documents s))"

definition approvers_of :: "db \<Rightarrow> uuid \<Rightarrow> approver list" where
  "approvers_of s d = filter (\<lambda>a. a_document_id a = d) (approvers s)"

definition signers_of :: "db \<Rightarrow> uuid \<Rightarrow> external_signer list" where
  "signers_of s d = filter (\<lambda>x. s_document_id x = d) (external_signers s)"

definition set_document_status :: "uuid \<Rightarrow> doc_status \<Rightarrow> db \<Rightarrow> db" where
  "set_document_status d st s =
     s\<lparr>documents := map (\<lambda>x. if d_id x = d then x\<lparr>d_status := st\<rparr> else x) (documents s)\<rparr>"

definition insert_status_update :: "(request \<Rightarrow> bool) \<Rightarrow> status_update \<Rightarrow> db \<Rightarrow> db" where
  "insert_status_update fails row s =
     (if fails InsertStatusUpdate then s
      else s\<lparr>status_updates := status_updates s @ [row]\<rparr>)"

section \<open>Approver decisions (AdminApprovals, handleApproval)\<close>

datatype decision = d_approved | d_rejected

fun approver_status_of :: "decision \<Rightarrow> approver_status" where
  "approver_status_of d_approved = a_approved"
| "approver_status_of d_rejected = a_rejected"

fun update_type_of :: "decision \<Rightarrow> update_type" where
  "update_type_of d_approved = u_approved"
| "update_type_of d_rejected = u_rejected"

fun decision_text :: "decision \<Rightarrow> string" where
  "decision_text d_approved = ''approved''"
| "decision_text d_rejected = ''rejected''"

definition user_id_of :: "user option \<Rightarrow> uuid option" where
  "user_id_of u = map_option u_id u"

definition full_name_of :: "user option \<Rightarrow> string" where
  "full_name_of u = (case u of None \<Rightarrow> ''undefined'' | Some x \<Rightarrow> full_name x)"

definition decided_row ::
  "decision \<Rightarrow> string option \<Rightarrow> timestamp \<Rightarrow> approver \<Rightarrow> approver" where
  "decided_row status comments now a =
     a\<lparr>a_status := approver_status_of status,
       a_comments := (case comments of None \<Rightarrow> a_comments a | Some c \<Rightarrow> Some c),
       approved_at := (if status = d_approved then Some now else None)\<rparr>"

definition update_approver ::
  "uuid \<Rightarrow> decision \<Rightarrow> string option \<Rightarrow> timestamp \<Rightarrow> db \<Rightarrow> db" where
  "update_approver approverId status comments now s =
     s\<lparr>approvers :=
        map (\<lambda>a. if a_id a = approverId then decided_row status comments now a else a)
            (approvers s)\<rparr>"

definition newDocumentStatus :: "approver list \<Rightarrow> doc_status" where
  "newDocumentStatus allApprovers =
     (let allApproved = list_all (\<lambda>a. a_status a = a_approved) allApprovers;
          anyRejected = list_ex (\<lambda>a. a_status a = a_rejected) allApprovers
      in if anyRejected then rejected
         else if allApproved then approved
         else pending_approval)"

definition updateMessage ::
  "user option \<Rightarrow> decision \<Rightarrow> approver list \<Rightarrow> string" where
  "updateMessage u status allApprovers =
     (let allApproved = list_all (\<lambda>a. a_status a = a_approved) allApprovers;
          anyRejected = list_ex (\<lambda>a. a_status a = a_rejected) allApprovers
      in if anyRejected then ''Document rejected by one or more approvers''
         else if allApproved then ''Document approved by all approvers and ready for signing''
         else ''Document '' @ decision_text status @ '' by '' @ full_name_of u)"

definition comments_or :: "string option \<Rightarrow> string \<Rightarrow> string" where
  "comments_or comments dflt =
     (case comments of None \<Rightarrow> dflt | Some c \<Rightarrow> if c = [] then dflt else c)"

definition handleApproval ::
  "(request \<Rightarrow> bool) \<Rightarrow> user option \<Rightarrow> timestamp \<Rightarrow> uuid \<Rightarrow> uuid \<Rightarrow> decision
     \<Rightarrow> string option \<Rightarrow> db \<Rightarrow> (failure + unit) \<times> db" where
  "handleApproval fails u now documentId approverId status comments s =
     (if fails UpdateApprover then (Inl (GatewayError UpdateApprover), s)
      else
        let s1 = update_approver approverId status comments now s in
        if fails SelectApprovers then (Inl (GatewayError SelectApprovers), s1)
        else
          let allApprovers = approvers_of s1 documentId;
              new = newDocumentStatus allApprovers;
              msg = updateMessage u status allApprovers;
              row = \<lparr>su_document_id = documentId, updated_by = user_id_of u,
                     su_update_type = update_type_of status,
                     message = comments_or comments msg\<rparr>
          in if new \<noteq> pending_approval
             then (if fails UpdateDocument then (Inl (GatewayError UpdateDocument), s1)
                   else (Inr (),
                         insert_status_update fails row
                           (set_document_status documentId
                              (if new = approved then in_progress else rejected) s1)))
             else (Inr (), insert_status_update fails row s1))"

text \<open>
  The approve and reject buttons of a card: the card's document comes from the list
  fetched earlier together with its approver rows, and the handler is reached only
  through the row whose \<open>user_id\<close> is the signed-in user's.
\<close>

definition find_own_approver :: "user option \<Rightarrow> approver list \<Rightarrow> approver option" where
  "find_own_approver u card_approvers =
     find (\<lambda>a. Some (a_user_id a) = user_id_of u) card_approvers"

definition onApprove ::
  "(request \<Rightarrow> bool) \<Rightarrow> user option \<Rightarrow> timestamp \<Rightarrow> uuid \<Rightarrow> approver list
     \<Rightarrow> string option \<Rightarrow> db \<Rightarrow> (failure + unit) \<times> db" where
  "onApprove fails u now card_document_id card_approvers comments s =
     (case find_own_approver u card_approvers of
        None \<Rightarrow> (Inr (), s)
      | Some a \<Rightarrow> handleApproval fails u now card_document_id (a_id a) d_approved comments s)"

definition onReject ::
  "(request \<Rightarrow> bool) \<Rightarrow> user option \<Rightarrow> timestamp \<Rightarrow> uuid \<Rightarrow> approver list
     \<Rightarrow> string option \<Rightarrow> db \<Rightarrow> (failure + unit) \<times> db" where
  "onReject fails u now card_document_id card_approvers comments s =
     (case find_own_approver u card_approvers of
        None \<Rightarrow> (Inr (), s)
      | Some a \<Rightarrow> handleApproval fails u now card_document_id (a_id a) d_rejected comments s)"

text \<open>A sequence of decisions on one document, each with its own actor, time and comments.\<close>

datatype decision_call =
  DecisionCall (dc_user: "user option") (dc_now: timestamp) (dc_approver_id: uuid)
    (dc_status: decision) (dc_comments: "string option")

fun run_decisions :: "uuid \<Rightarrow> decision_call list \<Rightarrow> db \<Rightarrow> db" where
  "run_decisions documentId [] s = s"
| "run_decisions documentId (c # cs) s =
     run_decisions documentId cs
       (snd (handleApproval no_faults (dc_user c) (dc_now c) documentId (dc_approver_id c)
               (dc_status c) (dc_comments c) s))"

text \<open>What such a sequence does to one approver row.\<close>

definition step_row :: "decision_call \<Rightarrow> approver \<Rightarrow> approver" where
  "step_row c a =
     (if a_id a = dc_approver_id c
      then decided_row (dc_status c) (dc_comments c) (dc_now c) a else a)"

definition final_row :: "decision_call list \<Rightarrow> approver \<Rightarrow> approver" where
  "final_row cs a = fold step_row cs a"

section \<open>Signer outcomes (DocumentDetails, updateSignerStatus)\<close>

datatype outcome = o_signed | o_rejected

fun signer_status_of :: "outcome \<Rightarrow> signer_status" where
  "signer_status_of o_signed = s_signed"
| "signer_status_of o_rejected = s_rejected"

fun outcome_text :: "outcome \<Rightarrow> string" where
  "outcome_text o_signed = ''signed''"
| "outcome_text o_rejected = ''rejected''"

definition recorded_row :: "outcome \<Rightarrow> string \<Rightarrow> timestamp \<Rightarrow> external_signer \<Rightarrow> external_signer" where
  "recorded_row status comments now x =
     x\<lparr>s_status := signer_status_of status,
       signed_at := (if status = o_signed then Some now else None),
       s_comments := Some comments\<rparr>"

definition update_signer :: "uuid \<Rightarrow> outcome \<Rightarrow> string \<Rightarrow> timestamp \<Rightarrow> db \<Rightarrow> db" where
  "update_signer signerId status comments now s =
     s\<lparr>external_signers :=
        map (\<lambda>x. if s_id x = signerId then recorded_row status comments now x else x)
            (external_signers s)\<rparr>"

definition updatedSigners :: "external_signer list \<Rightarrow> uuid \<Rightarrow> outcome \<Rightarrow> external_signer list" where
  "updatedSigners signers signerId status =
     map (\<lambda>x. if s_id x = signerId then x\<lparr>s_status := signer_status_of status\<rparr> else x) signers"

text \<open>
  \<open>signers\<close> is the page's copy of the signer rows, fetched when the page was loaded
  or last refreshed; \<open>message_field\<close> is the text of the comments box.
\<close>

definition updateSignerStatus ::
  "(request \<Rightarrow> bool) \<Rightarrow> user option \<Rightarrow> timestamp \<Rightarrow> uuid \<Rightarrow> external_signer list
     \<Rightarrow> string \<Rightarrow> uuid \<Rightarrow> outcome \<Rightarrow> db \<Rightarrow> (failure + unit) \<times> db" where
  "updateSignerStatus fails u now page_id signers message_field signerId status s =
     (if fails UpdateSigner then (Inl (GatewayError UpdateSigner), s)
      else
        let s1 = update_signer signerId status message_field now s;
            row = \<lparr>su_document_id = page_id, updated_by = user_id_of u,
                   su_update_type = (if status = o_signed then signature_received else u_rejected),
                   message = (if message_field = [] then ''Signature '' @ outcome_text status
                              else message_field)\<rparr>;
            s2 = insert_status_update fails row s1;
            upd = updatedSigners signers signerId status;
            allSigned = list_all (\<lambda>x. s_status x = s_signed) upd;
            anyRejected = list_ex (\<lambda>x. s_status x = s_rejected) upd
        in if allSigned
           then (Inr (), if fails UpdateDocument then s2 else set_document_status page_id completed s2)
           else if anyRejected
           then (Inr (), if fails UpdateDocument then s2 else set_document_status page_id rejected s2)
           else (Inr (), s2))"

text \<open>
  The rule as the specification words it, read off the rows as stored: rejected when
  some stored signer row of the document is rejected, else completed when all of
  them are signed, and no new status otherwise. It is what the handler is compared
  with, not part of the handler.
\<close>

definition stored_signer_verdict :: "db \<Rightarrow> uuid \<Rightarrow> doc_status option" where
  "stored_signer_verdict s d =
     (if list_ex (\<lambda>x. s_status x = s_rejected) (signers_of s d) then Some rejected
      else if list_all (\<lambda>x. s_status x = s_signed) (signers_of s d) then Some completed
      else None)"

section \<open>Submission (CreateDocument, createDocumentSchema and onSubmit)\<close>

record signer_entry =
  se_name :: string
  se_designation :: string

record form_data =
  f_title :: string
  f_description :: string
  f_approvers :: "uuid list"
  f_external_signers :: "signer_entry list"

definition min_issue :: "nat \<Rightarrow> nat \<Rightarrow> string \<Rightarrow> string list" where
  "min_issue len bound msg = (if len < bound then [msg] else [])"

definition signer_issues :: "signer_entry \<Rightarrow> string list" where
  "signer_issues e =
     min_issue (length (se_name e)) 2 ''Name is required''
     @ min_issue (length (se_designation e)) 2 ''Designation is required''"

definition createDocumentSchema :: "form_data \<Rightarrow> string list" where
  "createDocumentSchema data =
     min_issue (length (f_title data)) 3 ''Title must be at least 3 characters''
     @ min_issue (length (f_description data)) 10 ''Description must be at least 10 characters''
     @ min_issue (length (f_approvers data)) 1 ''At least one approver is required''
     @ min_issue (length (f_external_signers data)) 1 ''At least one external signer is required''
     @ concat (map signer_issues (f_external_signers data))"

text \<open>
  What the platform generates during a submission: the public URL of the uploaded
  file and the primary keys of the inserted rows.
\<close>

record generated =
  file_url :: string
  new_document_id :: uuid
  new_approver_id :: "nat \<Rightarrow> uuid"
  new_signer_id :: "nat \<Rightarrow> uuid"

definition approverRecords :: "generated \<Rightarrow> uuid list \<Rightarrow> approver list" where
  "approverRecords g approverIds =
     map (\<lambda>(index, approverId).
            \<lparr>a_id = new_approver_id g index, a_document_id = new_document_id g,
             a_user_id = approverId, a_order = index + 1, a_status = a_pending,
             a_comments = None, approved_at = None\<rparr>)
         (enumerate 0 approverIds)"

definition signerRecords :: "generated \<Rightarrow> signer_entry list \<Rightarrow> external_signer list" where
  "signerRecords g entries =
     map (\<lambda>(index, signer).
            \<lparr>s_id = new_signer_id g index, s_document_id = new_document_id g,
             s_name = se_name signer, s_designation = se_designation signer,
             s_order = index + 1, s_status = s_pending, signed_at = None, s_comments = None\<rparr>)
         (enumerate 0 entries)"

definition onSubmit ::
  "(request \<Rightarrow> bool) \<Rightarrow> generated \<Rightarrow> user option \<Rightarrow> string option \<Rightarrow> form_data \<Rightarrow> db
     \<Rightarrow> (failure + uuid) \<times> db" where
  "onSubmit fails g u file data s =
     (case file of
        None \<Rightarrow> (Inl NoFileSelected, s)
      | Some file_name \<Rightarrow>
          if fails UploadFile then (Inl (GatewayError UploadFile), s)
          else if fails InsertDocument then (Inl (GatewayError InsertDocument), s)
          else
            let doc = \<lparr>d_id = new_document_id g, title = f_title data,
                       description = f_description data, document_url = file_url g,
                       created_by = user_id_of u, d_status = pending_approval\<rparr>;
                s1 = s\<lparr>documents := documents s @ [doc]\<rparr>
            in if fails InsertApprovers then (Inl (GatewayError InsertApprovers), s1)
               else
                 let s2 = s1\<lparr>approvers := approvers s1 @ approverRecords g (f_approvers data)\<rparr>
                 in if fails InsertSigners then (Inl (GatewayError InsertSigners), s2)
                    else
                      let s3 = s2\<lparr>external_signers :=
                                    external_signers s2 @ signerRecords g (f_external_signers data)\<rparr>;
                          row = \<lparr>su_document_id = d_id doc, updated_by = user_id_of u,
                                 su_update_type = created,
                                 message = ''Document created and submitted for approval''\<rparr>
                      in (Inr (d_id doc), insert_status_update fails row s3))"

text \<open>The form library runs the schema first and calls \<open>onSubmit\<close> only when no issue is found.\<close>

definition handleSubmit ::
  "(request \<Rightarrow> bool) \<Rightarrow> generated \<Rightarrow> user option \<Rightarrow> string option \<Rightarrow> form_data \<Rightarrow> db
     \<Rightarrow> (failure + uuid) \<times> db" where
  "handleSubmit fails g u file data s =
     (case createDocumentSchema data of
        [] \<Rightarrow> onSubmit fails g u file data s
      | issue # issues \<Rightarrow> (Inl (ValidationError (issue # issues)), s))"

section \<open>Sign-up (lib/supabase, isAdminCode and signUp)\<close>

definition adminCodes :: "string list" where
  "adminCodes = [''0001'', ''0002'', ''0003'', ''0004'']"

definition isAdminCode :: "string \<Rightarrow> bool" where
  "isAdminCode employeeCode = (employeeCode \<in> set adminCodes)"

text \<open>
  \<open>auth_user\<close> is the user object of the authentication service's answer: its id,
  or nothing when the answer carries no user.
\<close>

definition signUp ::
  "(request \<Rightarrow> bool) \<Rightarrow> uuid option \<Rightarrow> string \<Rightarrow> string \<Rightarrow> string \<Rightarrow> string \<Rightarrow> db
     \<Rightarrow> (failure + uuid option) \<times> db" where
  "signUp fails auth_user email_in password employeeCode fullName s =
     (let isAdmin = isAdminCode employeeCode
      in if fails AuthSignUp then (Inl (GatewayError AuthSignUp), s)
         else case auth_user of
                None \<Rightarrow> (Inr None, s)
              | Some uid \<Rightarrow>
                  if fails InsertUser then (Inl (GatewayError InsertUser), s)
                  else (Inr (Some uid),
                        s\<lparr>users := users s @
                             [\<lparr>u_id = uid, email = email_in, employee_code = employeeCode,
                               full_name = fullName, is_admin = isAdmin\<rparr>]\<rparr>))"

text \<open>
  The later setup replaces the insert made by \<open>signUp\<close> with a database trigger on
  the authentication table; \<open>handle_new_user\<close> is the row that trigger inserts.
\<close>

definition handle_new_user :: "uuid \<Rightarrow> string \<Rightarrow> string \<Rightarrow> string \<Rightarrow> user" where
  "handle_new_user new_id new_email code name =
     \<lparr>u_id = new_id, email = new_email, employee_code = code, full_name = name,
      is_admin = (if code \<in> set [''0001'', ''0002'', ''0003'', ''0004''] then True else False)\<rparr>"

section \<open>Example data\<close>

text \<open>
  A small club: two administrators, one ordinary member who created the document,
  one document with two approvers, and the signer rows given as a parameter.
\<close>

definition alice :: user where
  "alice = \<lparr>u_id = ''u-alice'', email = ''alice@club.com'', employee_code = ''0001'',
            full_name = ''Alice'', is_admin = True\<rparr>"

definition bob :: user where
  "bob = \<lparr>u_id = ''u-bob'', email = ''bob@club.com'', employee_code = ''0002'',
          full_name = ''Bob'', is_admin = True\<rparr>"

definition carol :: user where
  "carol = \<lparr>u_id = ''u-carol'', email = ''carol@club.com'', employee_code = ''0100'',
            full_name = ''Carol'', is_admin = False\<rparr>"

definition demo_document :: "doc_status \<Rightarrow> document" where
  "demo_document st = \<lparr>d_id = ''doc-1'', title = ''Venue contract'',
     description = ''Contract for the annual meeting'',
     document_url = ''https://files/doc-1.pdf'',
     created_by = Some ''u-carol'', d_status = st\<rparr>"

definition demo_approver :: "uuid \<Rightarrow> uuid \<Rightarrow> nat \<Rightarrow> approver_status \<Rightarrow> approver" where
  "demo_approver i uid n st = \<lparr>a_id = i, a_document_id = ''doc-1'', a_user_id = uid,
     a_order = n, a_status = st, a_comments = None, approved_at = None\<rparr>"

definition demo_signer :: "uuid \<Rightarrow> nat \<Rightarrow> signer_status \<Rightarrow> external_signer" where
  "demo_signer i n st = \<lparr>s_id = i, s_document_id = ''doc-1'', s_name = ''Dana'',
     s_designation = ''Venue manager'', s_order = n, s_status = st, signed_at = None,
     s_comments = None\<rparr>"

definition demo_db ::
  "doc_status \<Rightarrow> approver_status \<Rightarrow> approver_status \<Rightarrow> external_signer list \<Rightarrow> db" where
  "demo_db st a1 a2 sg = \<lparr>users = [alice, bob, carol], documents = [demo_document st],
     approvers = [demo_approver ''ap-1'' ''u-alice'' 1 a1, demo_approver ''ap-2'' ''u-bob'' 2 a2],
     external_signers = sg, status_updates = []\<rparr>"

definition empty_db :: db where
  "empty_db = \<lparr>users = [], documents = [], approvers = [], external_signers = [],
     status_updates = []\<rparr>"

definition demo_generated :: generated where
  "demo_generated = \<lparr>file_url = ''https://files/doc-2.pdf'', new_document_id = ''doc-2'',
     new_approver_id = (\<lambda>n. if n = 0 then ''ap-3'' else ''ap-4''),
     new_signer_id = (\<lambda>n. if n = 0 then ''sg-3'' else ''sg-4'')\<rparr>"

definition demo_form :: "uuid list \<Rightarrow> signer_entry list \<Rightarrow> form_data" where
  "demo_form as sg = \<lparr>f_title = ''Sponsorship letter'',
     f_description = ''Letter to the main sponsor'', f_approvers = as,
     f_external_signers = sg\<rparr>"

definition only_fails :: "request \<Rightarrow> request \<Rightarrow> bool" where
  "only_fails r r' = (r' = r)"

definition demo_signers :: "signer_status \<Rightarrow> signer_status \<Rightarrow> external_signer list" where
  "demo_signers st1 st2 = [demo_signer ''sg-1'' 1 st1, demo_signer ''sg-2'' 2 st2]"

definition dave :: user where
  "dave = \<lparr>u_id = ''u-dave'', email = ''dave@club.com'', employee_code = ''0003'',
           full_name = ''Dave'', is_admin = True\<rparr>"

definition demo_db3 :: db where
  "demo_db3 = \<lparr>users = [alice, bob, dave, carol], documents = [demo_document pending_approval],
     approvers = [demo_approver ''ap-1'' ''u-alice'' 1 a_pending,
                  demo_approver ''ap-2'' ''u-bob'' 2 a_pending,
                  demo_approver ''ap-3'' ''u-dave'' 3 a_pending],
     external_signers = [], status_updates = []\<rparr>"

definition demo_call :: "user \<Rightarrow> uuid \<Rightarrow> decision \<Rightarrow> decision_call" where
  "demo_call usr i st = DecisionCall (Some usr) ''t1'' i st (Some [])"

section \<open>Auxiliary facts\<close>

lemma approvers_insert_status_update [simp]:
  "approvers (insert_status_update fails row s) = approvers s"
  "documents (insert_status_update fails row s) = documents s"
  "users (insert_status_update fails row s) = users s"
  "external_signers (insert_status_update fails row s) = external_signers s"
  by (simp_all add: insert_status_update_def)

lemma set_document_status_fields [simp]:
  "approvers (set_document_status d st s) = approvers s"
  "users (set_document_status d st s) = users s"
  "external_signers (set_document_status d st s) = external_signers s"
  "status_updates (set_document_status d st s) = status_updates s"
  by (simp_all add: set_document_status_def)

lemma update_approver_fields [simp]:
  "documents (update_approver i st c now s) = documents s"
  "users (update_approver i st c now s) = users s"
  "external_signers (update_approver i st c now s) = external_signers s"
  "status_updates (update_approver i st c now s) = status_updates s"
  by (simp_all add: update_approver_def)

lemma document_status_insert_status_update [simp]:
  "document_status (insert_status_update fails row s) d = document_status s d"
  by (simp add: document_status_def)

lemma document_status_update_approver [simp]:
  "document_status (update_approver i st c now s) d = document_status s d"
  by (simp add: document_status_def)

lemma find_map_status:
  "find (\<lambda>x. d_id x = d) (map (\<lambda>x. if d_id x = d then x\<lparr>d_status := st\<rparr> else x) xs)
     = map_option (\<lambda>x. x\<lparr>d_status := st\<rparr>) (find (\<lambda>x. d_id x = d) xs)"
  by (induction xs) auto

lemma find_map_status_other:
  "d' \<noteq> d \<Longrightarrow> find (\<lambda>x. d_id x = d') (map (\<lambda>x. if d_id x = d then x\<lparr>d_status := st\<rparr> else x) xs)
     = find (\<lambda>x. d_id x = d') xs"
  by (induction xs) auto

lemma document_status_set_same:
  "document_status (set_document_status d st s) d = map_option (\<lambda>_. st) (document_status s d)"
  by (simp add: document_status_def set_document_status_def find_map_status option.map_comp comp_def)

lemma document_status_set_other:
  "d' \<noteq> d \<Longrightarrow> document_status (set_document_status d st s) d' = document_status s d'"
  by (simp add: document_status_def set_document_status_def find_map_status_other)

lemma approvers_of_ignores [simp]:
  "approvers_of (insert_status_update fails row s) d = approvers_of s d"
  "approvers_of (set_document_status d' st s) d = approvers_of s d"
  by (simp_all add: approvers_of_def)



lemma decided_row_fields [simp]:
  "a_id (decided_row st c now a) = a_id a"
  "a_document_id (decided_row st c now a) = a_document_id a"
  "a_user_id (decided_row st c now a) = a_user_id a"
  "a_order (decided_row st c now a) = a_order a"
  "a_status (decided_row st c now a) = approver_status_of st"
  by (simp_all add: decided_row_def)

lemma handleApproval_ok:
  assumes "\<not> fails UpdateApprover" "\<not> fails SelectApprovers" "\<not> fails UpdateDocument"
  shows "handleApproval fails u now documentId approverId status comments s =
     (let s1 = update_approver approverId status comments now s;
          rows = approvers_of s1 documentId;
          row = \<lparr>su_document_id = documentId, updated_by = user_id_of u,
                 su_update_type = update_type_of status,
                 message = comments_or comments (updateMessage u status rows)\<rparr>
      in (Inr (), insert_status_update fails row
            (if list_ex (\<lambda>a. a_status a = a_rejected) rows
             then set_document_status documentId rejected s1
             else if list_all (\<lambda>a. a_status a = a_approved) rows
             then set_document_status documentId in_progress s1
             else s1)))"
  using assms by (simp add: handleApproval_def Let_def newDocumentStatus_def)


lemma document_status_handleApproval:
  "document_status (snd (handleApproval fails u now d i st c s)) d =
     (if fails UpdateApprover \<or> fails SelectApprovers \<or> fails UpdateDocument
      then document_status s d
      else if list_ex (\<lambda>a. a_status a = a_rejected) (approvers_of (update_approver i st c now s) d)
      then map_option (\<lambda>_. rejected) (document_status s d)
      else if list_all (\<lambda>a. a_status a = a_approved) (approvers_of (update_approver i st c now s) d)
      then map_option (\<lambda>_. in_progress) (document_status s d)
      else document_status s d)"
  by (simp add: handleApproval_def Let_def newDocumentStatus_def document_status_set_same)

section \<open>Approver decisions\<close>



section \<open>Submission\<close>

lemma createDocumentSchema_no_approvers:
  "f_approvers data = [] \<Longrightarrow> ''At least one approver is required'' \<in> set (createDocumentSchema data)"
  by (simp add: createDocumentSchema_def min_issue_def)

lemma createDocumentSchema_no_signers:
  "f_external_signers data = [] \<Longrightarrow>
     ''At least one external signer is required'' \<in> set (createDocumentSchema data)"
  by (simp add: createDocumentSchema_def min_issue_def)

lemma handleSubmit_issues:
  "createDocumentSchema data \<noteq> [] \<Longrightarrow>
     handleSubmit fails g u file data s = (Inl (ValidationError (createDocumentSchema data)), s)"
  by (cases "createDocumentSchema data") (simp_all add: handleSubmit_def)

lemma handleSubmit_valid:
  "createDocumentSchema data = [] \<Longrightarrow>
     handleSubmit fails g u file data s = onSubmit fails g u file data s"
  by (simp add: handleSubmit_def)

text \<open>
  C7. A submission whose approver list or signer list is empty is stopped by the
  schema: the result is a validation error carrying the schema's issues, among them
  the message for the empty list, and the database is returned as it was, so no
  document, approver, signer or activity row is created.
\<close>

theorem handleSubmit_empty_lists:
  assumes "f_approvers data = [] \<or> f_external_signers data = []"
  shows "handleSubmit fails g u file data s = (Inl (ValidationError (createDocumentSchema data)), s)
     \<and> createDocumentSchema data \<noteq> []
     \<and> (f_approvers data = [] \<longrightarrow>
           ''At least one approver is required'' \<in> set (createDocumentSchema data))
     \<and> (f_external_signers data = [] \<longrightarrow>
           ''At least one external signer is required'' \<in> set (createDocumentSchema data))"
proof -
  have ne: "createDocumentSchema data \<noteq> []"
    using assms createDocumentSchema_no_approvers [of data] createDocumentSchema_no_signers [of data]
    by fastforce
  show ?thesis
    using ne createDocumentSchema_no_approvers [of data] createDocumentSchema_no_signers [of data]
    by (simp add: handleSubmit_issues)
qed

theorem handleSubmit_empty_lists_witness:
  "(f_approvers (demo_form [] [\<lparr>se_name = ''Dana'', se_designation = ''Manager''\<rparr>]) = []
      \<or> f_external_signers (demo_form [] [\<lparr>se_name = ''Dana'', se_designation = ''Manager''\<rparr>]) = [])
   \<and> handleSubmit no_faults demo_generated (Some carol) (Some ''letter.pdf'')
        (demo_form [] [\<lparr>se_name = ''Dana'', se_designation = ''Manager''\<rparr>]) empty_db
       = (Inl (ValidationError [''At least one approver is required'']), empty_db)"
  using handleSubmit_empty_lists [of "demo_form [] [\<lparr>se_name = ''Dana'', se_designation = ''Manager''\<rparr>]"
      no_faults demo_generated "Some carol" "Some ''letter.pdf''" empty_db]
  by (simp add: demo_form_def createDocumentSchema_def min_issue_def signer_issues_def)

lemma map_of_fst_enumerate:
  "map (\<lambda>p. h (fst p)) (enumerate n xs) = map h [n..<n + length xs]"
proof -
  have "map (\<lambda>p. h (fst p)) (enumerate n xs) = map h (map fst (enumerate n xs))"
    by (simp only: map_map comp_def)
  then show ?thesis by simp
qed

lemma map_of_snd_enumerate:
  "map (\<lambda>p. h (snd p)) (enumerate n xs) = map h xs"
proof -
  have "map (\<lambda>p. h (snd p)) (enumerate n xs) = map h (map snd (enumerate n xs))"
    by (simp only: map_map comp_def)
  then show ?thesis by simp
qed

lemma approverRecords_user_ids: "map a_user_id (approverRecords g ids) = ids"
  using map_of_snd_enumerate [of "\<lambda>x. x" 0 ids]
  by (simp add: approverRecords_def split_def comp_def)

lemma approverRecords_order:
  "map a_order (approverRecords g ids) = [1..<Suc (length ids)]"
  using map_of_fst_enumerate [of Suc 0 ids]
  by (simp add: approverRecords_def split_def comp_def map_Suc_upt)

lemma approverRecords_pending:
  "list_all (\<lambda>a. a_status a = a_pending \<and> a_document_id a = new_document_id g)
     (approverRecords g ids)"
  by (simp add: approverRecords_def list_all_iff split_def)

lemma signerRecords_names:
  "map s_name (signerRecords g es) = map se_name es"
  "map s_designation (signerRecords g es) = map se_designation es"
  using map_of_snd_enumerate [of se_name 0 es] map_of_snd_enumerate [of se_designation 0 es]
  by (simp_all add: signerRecords_def split_def comp_def)

lemma signerRecords_order:
  "map s_order (signerRecords g es) = [1..<Suc (length es)]"
  using map_of_fst_enumerate [of Suc 0 es]
  by (simp add: signerRecords_def split_def comp_def map_Suc_upt)

lemma signerRecords_pending:
  "list_all (\<lambda>x. s_status x = s_pending \<and> s_document_id x = new_document_id g)
     (signerRecords g es)"
  by (simp add: signerRecords_def list_all_iff split_def)

lemma onSubmit_after_document:
  assumes "\<not> fails UploadFile" "\<not> fails InsertDocument"
  shows "onSubmit fails g u (Some f) data s =
     (let doc = \<lparr>d_id = new_document_id g, title = f_title data,
                 description = f_description data, document_url = file_url g,
                 created_by = user_id_of u, d_status = pending_approval\<rparr>;
          s1 = s\<lparr>documents := documents s @ [doc]\<rparr>
      in if fails InsertApprovers then (Inl (GatewayError InsertApprovers), s1)
         else if fails InsertSigners
         then (Inl (GatewayError InsertSigners),
               s1\<lparr>approvers := approvers s @ approverRecords g (f_approvers data)\<rparr>)
         else (Inr (new_document_id g),
               insert_status_update fails
                 \<lparr>su_document_id = new_document_id g, updated_by = user_id_of u,
                  su_update_type = created,
                  message = ''Document created and submitted for approval''\<rparr>
                 (s1\<lparr>approvers := approvers s @ approverRecords g (f_approvers data),
                     external_signers :=
                       external_signers s @ signerRecords g (f_external_signers data)\<rparr>)))"
  using assms by (simp add: onSubmit_def Let_def)

lemma handleSubmit_success:
  assumes "fst (handleSubmit fails g u file data s) = Inr i"
  shows "createDocumentSchema data = [] \<and> (\<exists>f. file = Some f)
     \<and> \<not> fails UploadFile \<and> \<not> fails InsertDocument
     \<and> \<not> fails InsertApprovers \<and> \<not> fails InsertSigners \<and> i = new_document_id g"
proof (cases "createDocumentSchema data")
  case (Cons issue issues)
  with assms show ?thesis by (simp add: handleSubmit_def)
next
  case Nil
  show ?thesis
  proof (cases "file")
    case None
    with Nil assms show ?thesis by (simp add: handleSubmit_def onSubmit_def)
  next
    case (Some f)
    with Nil assms show ?thesis
      by (simp add: handleSubmit_def onSubmit_def Let_def split: if_splits)
  qed
qed

text \<open>
  C4, as amended. A submission that ends with a document id: that id is the new
  document's; the documents table has gained exactly one row, pending approval; the
  approvers table one pending row per supplied approver id, in the order supplied
  and numbered from 1; the signers table one pending row per entry, likewise. One
  activity row of kind \<open>created\<close> has been appended when the activity insert was
  accepted, and none when it was not: the answer of that insert is never examined.
\<close>

theorem handleSubmit_creates_rows:
  assumes success: "fst (handleSubmit fails g u file data s) = Inr i"
  shows "i = new_document_id g
     \<and> documents (snd (handleSubmit fails g u file data s)) =
         documents s @ [\<lparr>d_id = new_document_id g, title = f_title data,
                          description = f_description data, document_url = file_url g,
                          created_by = user_id_of u, d_status = pending_approval\<rparr>]
     \<and> (\<exists>rows. approvers (snd (handleSubmit fails g u file data s)) = approvers s @ rows
           \<and> map a_user_id rows = f_approvers data
           \<and> map a_order rows = [1..<Suc (length (f_approvers data))]
           \<and> list_all (\<lambda>a. a_status a = a_pending \<and> a_document_id a = new_document_id g) rows)
     \<and> (\<exists>rows. external_signers (snd (handleSubmit fails g u file data s)) =
                   external_signers s @ rows
           \<and> map s_name rows = map se_name (f_external_signers data)
           \<and> map s_designation rows = map se_designation (f_external_signers data)
           \<and> map s_order rows = [1..<Suc (length (f_external_signers data))]
           \<and> list_all (\<lambda>x. s_status x = s_pending \<and> s_document_id x = new_document_id g) rows)
     \<and> status_updates (snd (handleSubmit fails g u file data s)) =
         (if fails InsertStatusUpdate then status_updates s
          else status_updates s @
                 [\<lparr>su_document_id = new_document_id g, updated_by = user_id_of u,
                   su_update_type = created,
                   message = ''Document created and submitted for approval''\<rparr>])
     \<and> users (snd (handleSubmit fails g u file data s)) = users s"
proof -
  from handleSubmit_success [OF success]
  obtain f where valid: "createDocumentSchema data = []" and fl: "file = Some f"
    and ok: "\<not> fails UploadFile" "\<not> fails InsertDocument" "\<not> fails InsertApprovers"
      "\<not> fails InsertSigners"
    and i: "i = new_document_id g"
    by blast
  have h: "snd (handleSubmit fails g u file data s) =
       insert_status_update fails
         \<lparr>su_document_id = new_document_id g, updated_by = user_id_of u,
          su_update_type = created,
          message = ''Document created and submitted for approval''\<rparr>
         (s\<lparr>documents := documents s @ [\<lparr>d_id = new_document_id g, title = f_title data,
                          description = f_description data, document_url = file_url g,
                          created_by = user_id_of u, d_status = pending_approval\<rparr>],
            approvers := approvers s @ approverRecords g (f_approvers data),
            external_signers := external_signers s @ signerRecords g (f_external_signers data)\<rparr>)"
    using ok valid by (simp add: fl handleSubmit_valid onSubmit_after_document Let_def)
  have a: "\<exists>rows. approvers s @ approverRecords g (f_approvers data) = approvers s @ rows
           \<and> map a_user_id rows = f_approvers data
           \<and> map a_order rows = [1..<Suc (length (f_approvers data))]
           \<and> list_all (\<lambda>a. a_status a = a_pending \<and> a_document_id a = new_document_id g) rows"
    using approverRecords_user_ids [of g "f_approvers data"]
      approverRecords_order [of g "f_approvers data"]
      approverRecords_pending [of g "f_approvers data"]
    by blast
  have b: "\<exists>rows. external_signers s @ signerRecords g (f_external_signers data) =
                   external_signers s @ rows
           \<and> map s_name rows = map se_name (f_external_signers data)
           \<and> map s_designation rows = map se_designation (f_external_signers data)
           \<and> map s_order rows = [1..<Suc (length (f_external_signers data))]
           \<and> list_all (\<lambda>x. s_status x = s_pending \<and> s_document_id x = new_document_id g) rows"
    using signerRecords_names [of g "f_external_signers data"]
      signerRecords_order [of g "f_external_signers data"]
      signerRecords_pending [of g "f_external_signers data"]
    by blast
  show ?thesis
    unfolding h using a b i by (simp add: insert_status_update_def)
qed

theorem handleSubmit_creates_rows_witness:
  "fst (handleSubmit no_faults demo_generated (Some carol) (Some ''letter.pdf'')
         (demo_form [''u-alice'', ''u-bob''] [\<lparr>se_name = ''Dana'', se_designation = ''Manager''\<rparr>])
         empty_db) = Inr ''doc-2''
   \<and> map d_status (documents (snd (handleSubmit no_faults demo_generated (Some carol) (Some ''letter.pdf'')
         (demo_form [''u-alice'', ''u-bob''] [\<lparr>se_name = ''Dana'', se_designation = ''Manager''\<rparr>])
         empty_db))) = [pending_approval]
   \<and> map a_user_id (approvers (snd (handleSubmit no_faults demo_generated (Some carol) (Some ''letter.pdf'')
         (demo_form [''u-alice'', ''u-bob''] [\<lparr>se_name = ''Dana'', se_designation = ''Manager''\<rparr>])
         empty_db))) = [''u-alice'', ''u-bob'']
   \<and> map a_order (approvers (snd (handleSubmit no_faults demo_generated (Some carol) (Some ''letter.pdf'')
         (demo_form [''u-alice'', ''u-bob''] [\<lparr>se_name = ''Dana'', se_designation = ''Manager''\<rparr>])
         empty_db))) = [1, 2]
   \<and> map s_name (external_signers (snd (handleSubmit no_faults demo_generated (Some carol) (Some ''letter.pdf'')
         (demo_form [''u-alice'', ''u-bob''] [\<lparr>se_name = ''Dana'', se_designation = ''Manager''\<rparr>])
         empty_db))) = [''Dana'']
   \<and> map su_update_type (status_updates (snd (handleSubmit no_faults demo_generated (Some carol)
         (Some ''letter.pdf'')
         (demo_form [''u-alice'', ''u-bob''] [\<lparr>se_name = ''Dana'', se_designation = ''Manager''\<rparr>])
         empty_db))) = [created]"
proof -
  have f: "\<not> no_faults UploadFile" "\<not> no_faults InsertDocument" "\<not> no_faults InsertApprovers"
    "\<not> no_faults InsertSigners" "\<not> no_faults InsertStatusUpdate"
    by (simp_all add: no_faults_def)
  have b: "createDocumentSchema
         (demo_form [''u-alice'', ''u-bob''] [\<lparr>se_name = ''Dana'', se_designation = ''Manager''\<rparr>]) = []"
    by (simp add: createDocumentSchema_def demo_form_def min_issue_def signer_issues_def)
  have a: "fst (handleSubmit no_faults demo_generated (Some carol) (Some ''letter.pdf'')
         (demo_form [''u-alice'', ''u-bob''] [\<lparr>se_name = ''Dana'', se_designation = ''Manager''\<rparr>])
         empty_db) = Inr ''doc-2''"
    by (simp add: handleSubmit_valid [OF b] onSubmit_after_document f Let_def demo_generated_def)
  have c: "f_approvers (demo_form [''u-alice'', ''u-bob''] [\<lparr>se_name = ''Dana'', se_designation = ''Manager''\<rparr>])
             = [''u-alice'', ''u-bob'']"
    "f_external_signers (demo_form [''u-alice'', ''u-bob''] [\<lparr>se_name = ''Dana'', se_designation = ''Manager''\<rparr>])
             = [\<lparr>se_name = ''Dana'', se_designation = ''Manager''\<rparr>]"
    by (simp_all add: demo_form_def)
  have d: "[1..<Suc (Suc (Suc 0))] = [1, 2]" "[1..<Suc (Suc 0)] = [1]"
    by (simp_all add: upt_rec)
  note t = handleSubmit_creates_rows [OF a]
  have e: "documents empty_db = []" "approvers empty_db = []" "external_signers empty_db = []"
    "status_updates empty_db = []"
    by (simp_all add: empty_db_def)
  have 1: "map d_status (documents (snd (handleSubmit no_faults demo_generated (Some carol) (Some ''letter.pdf'')
         (demo_form [''u-alice'', ''u-bob''] [\<lparr>se_name = ''Dana'', se_designation = ''Manager''\<rparr>])
         empty_db))) = [pending_approval]"
    using t [THEN conjunct2, THEN conjunct1] by (simp add: e)
  have 2: "map a_user_id (approvers (snd (handleSubmit no_faults demo_generated (Some carol) (Some ''letter.pdf'')
         (demo_form [''u-alice'', ''u-bob''] [\<lparr>se_name = ''Dana'', se_designation = ''Manager''\<rparr>])
         empty_db))) = [''u-alice'', ''u-bob'']
     \<and> map a_order (approvers (snd (handleSubmit no_faults demo_generated (Some carol) (Some ''letter.pdf'')
         (demo_form [''u-alice'', ''u-bob''] [\<lparr>se_name = ''Dana'', se_designation = ''Manager''\<rparr>])
         empty_db))) = [1, 2]"
    using t [THEN conjunct2, THEN conjunct2, THEN conjunct1] by (simp add: e c d)
  have 3: "map s_name (external_signers (snd (handleSubmit no_faults demo_generated (Some carol) (Some ''letter.pdf'')
         (demo_form [''u-alice'', ''u-bob''] [\<lparr>se_name = ''Dana'', se_designation = ''Manager''\<rparr>])
         empty_db))) = [''Dana'']"
    using t [THEN conjunct2, THEN conjunct2, THEN conjunct2, THEN conjunct1] by (simp add: e c)
  have 4: "map su_update_type (status_updates (snd (handleSubmit no_faults demo_generated (Some carol)
         (Some ''letter.pdf'')
         (demo_form [''u-alice'', ''u-bob''] [\<lparr>se_name = ''Dana'', se_designation = ''Manager''\<rparr>])
         empty_db))) = [created]"
    using t [THEN conjunct2, THEN conjunct2, THEN conjunct2, THEN conjunct2, THEN conjunct1]
    by (simp add: e f)
  from a 1 2 3 4 show ?thesis
    by blast
qed

text \<open>
  C4 as stated fails when only the activity insert is refused: the submission ends
  with the document id, the document row exists, and there is no activity row.
\<close>

theorem handleSubmit_no_activity_row_counterexample:
  "fst (handleSubmit (only_fails InsertStatusUpdate) demo_generated (Some carol) (Some ''letter.pdf'')
         (demo_form [''u-alice'', ''u-bob''] [\<lparr>se_name = ''Dana'', se_designation = ''Manager''\<rparr>])
         empty_db) = Inr ''doc-2''
   \<and> map d_id (documents (snd (handleSubmit (only_fails InsertStatusUpdate) demo_generated (Some carol)
         (Some ''letter.pdf'')
         (demo_form [''u-alice'', ''u-bob''] [\<lparr>se_name = ''Dana'', se_designation = ''Manager''\<rparr>])
         empty_db))) = [''doc-2'']
   \<and> status_updates (snd (handleSubmit (only_fails InsertStatusUpdate) demo_generated (Some carol)
         (Some ''letter.pdf'')
         (demo_form [''u-alice'', ''u-bob''] [\<lparr>se_name = ''Dana'', se_designation = ''Manager''\<rparr>])
         empty_db)) = []"
proof -
  have b: "createDocumentSchema
         (demo_form [''u-alice'', ''u-bob''] [\<lparr>se_name = ''Dana'', se_designation = ''Manager''\<rparr>]) = []"
    by (simp add: createDocumentSchema_def demo_form_def min_issue_def signer_issues_def)
  have f: "only_fails InsertStatusUpdate InsertStatusUpdate"
    "\<not> only_fails InsertStatusUpdate UploadFile" "\<not> only_fails InsertStatusUpdate InsertDocument"
    "\<not> only_fails InsertStatusUpdate InsertApprovers" "\<not> only_fails InsertStatusUpdate InsertSigners"
    by (simp_all add: only_fails_def)
  show ?thesis
    by (simp add: handleSubmit_valid [OF b] onSubmit_after_document f Let_def
          insert_status_update_def empty_db_def demo_generated_def)
qed

text \<open>
  C8, as amended. When the document insert has succeeded and the approver insert
  or the signer insert comes back with an error, the submission ends with that
  error, and what was written before stays: the document row always, and the
  approver rows when it is the signer insert that failed. Nothing is rolled back.
\<close>

theorem onSubmit_partial_failure:
  assumes ok: "\<not> fails UploadFile \<and> \<not> fails InsertDocument"
    and valid: "createDocumentSchema data = []"
    and later: "fails InsertApprovers \<or> fails InsertSigners"
  shows "fst (handleSubmit fails g u (Some f) data s) =
           Inl (GatewayError (if fails InsertApprovers then InsertApprovers else InsertSigners))
     \<and> documents (snd (handleSubmit fails g u (Some f) data s)) =
         documents s @ [\<lparr>d_id = new_document_id g, title = f_title data,
                          description = f_description data, document_url = file_url g,
                          created_by = user_id_of u, d_status = pending_approval\<rparr>]
     \<and> approvers (snd (handleSubmit fails g u (Some f) data s)) =
         (if fails InsertApprovers then approvers s
          else approvers s @ approverRecords g (f_approvers data))
     \<and> external_signers (snd (handleSubmit fails g u (Some f) data s)) = external_signers s
     \<and> status_updates (snd (handleSubmit fails g u (Some f) data s)) = status_updates s"
proof (cases "fails InsertApprovers")
  case True
  with ok valid show ?thesis
    by (simp add: handleSubmit_valid onSubmit_after_document Let_def)
next
  case False
  with later have "fails InsertSigners" by simp
  with False ok valid show ?thesis
    by (simp add: handleSubmit_valid onSubmit_after_document Let_def)
qed

theorem onSubmit_partial_failure_witness:
  "(\<not> only_fails InsertApprovers UploadFile \<and> \<not> only_fails InsertApprovers InsertDocument)
   \<and> createDocumentSchema
         (demo_form [''u-alice''] [\<lparr>se_name = ''Dana'', se_designation = ''Manager''\<rparr>]) = []
   \<and> (only_fails InsertApprovers InsertApprovers \<or> only_fails InsertApprovers InsertSigners)
   \<and> fst (handleSubmit (only_fails InsertApprovers) demo_generated (Some carol) (Some ''letter.pdf'')
         (demo_form [''u-alice''] [\<lparr>se_name = ''Dana'', se_designation = ''Manager''\<rparr>]) empty_db)
       = Inl (GatewayError InsertApprovers)
   \<and> map d_id (documents (snd (handleSubmit (only_fails InsertApprovers) demo_generated (Some carol)
         (Some ''letter.pdf'')
         (demo_form [''u-alice''] [\<lparr>se_name = ''Dana'', se_designation = ''Manager''\<rparr>]) empty_db)))
       = [''doc-2'']
   \<and> approvers (snd (handleSubmit (only_fails InsertApprovers) demo_generated (Some carol)
         (Some ''letter.pdf'')
         (demo_form [''u-alice''] [\<lparr>se_name = ''Dana'', se_designation = ''Manager''\<rparr>]) empty_db))
       = []"
proof -
  have a: "\<not> only_fails InsertApprovers UploadFile \<and> \<not> only_fails InsertApprovers InsertDocument"
    by (simp add: only_fails_def)
  have b: "createDocumentSchema
         (demo_form [''u-alice''] [\<lparr>se_name = ''Dana'', se_designation = ''Manager''\<rparr>]) = []"
    by (simp add: createDocumentSchema_def demo_form_def min_issue_def signer_issues_def)
  have c: "only_fails InsertApprovers InsertApprovers \<or> only_fails InsertApprovers InsertSigners"
    by (simp add: only_fails_def)
  have f: "only_fails InsertApprovers InsertApprovers"
    by (simp add: only_fails_def)
  show ?thesis
    using onSubmit_partial_failure [OF a b c, of demo_generated "Some carol" "''letter.pdf''" empty_db]
    by (simp add: a b f empty_db_def demo_generated_def)
qed

text \<open>
  C8 as stated fails for the last write: the answer of the activity insert is
  never examined, so when that insert alone fails the submission still ends with
  the document id and no activity row exists.
\<close>

theorem onSubmit_unchecked_insert_counterexample:
  "only_fails InsertStatusUpdate InsertStatusUpdate
   \<and> fst (handleSubmit (only_fails InsertStatusUpdate) demo_generated (Some carol) (Some ''letter.pdf'')
         (demo_form [''u-alice''] [\<lparr>se_name = ''Dana'', se_designation = ''Manager''\<rparr>]) empty_db)
       = Inr ''doc-2''
   \<and> status_updates (snd (handleSubmit (only_fails InsertStatusUpdate) demo_generated (Some carol)
         (Some ''letter.pdf'')
         (demo_form [''u-alice''] [\<lparr>se_name = ''Dana'', se_designation = ''Manager''\<rparr>]) empty_db))
       = []"
proof -
  have b: "createDocumentSchema
         (demo_form [''u-alice''] [\<lparr>se_name = ''Dana'', se_designation = ''Manager''\<rparr>]) = []"
    by (simp add: createDocumentSchema_def demo_form_def min_issue_def signer_issues_def)
  have f: "only_fails InsertStatusUpdate InsertStatusUpdate"
    "\<not> only_fails InsertStatusUpdate UploadFile" "\<not> only_fails InsertStatusUpdate InsertDocument"
    "\<not> only_fails InsertStatusUpdate InsertApprovers" "\<not> only_fails InsertStatusUpdate InsertSigners"
    by (simp_all add: only_fails_def)
  show ?thesis
    by (simp add: handleSubmit_valid [OF b] onSubmit_after_document f Let_def
          insert_status_update_def empty_db_def demo_generated_def)
qed

section \<open>Sign-up and privilege\<close>

lemma isAdminCode_iff:
  "isAdminCode code \<longleftrightarrow> code \<in> {''0001'', ''0002'', ''0003'', ''0004''}"
  by (simp add: isAdminCode_def adminCodes_def)

lemma users_update_signer [simp]:
  "users (update_signer i st c now s) = users s"
  "documents (update_signer i st c now s) = documents s"
  "approvers (update_signer i st c now s) = approvers s"
  "status_updates (update_signer i st c now s) = status_updates s"
  by (simp_all add: update_signer_def)

lemma users_handleApproval: "users (snd (handleApproval fails u now d i st c s)) = users s"
  by (simp add: handleApproval_def Let_def)

lemma users_updateSignerStatus:
  "users (snd (updateSignerStatus fails u now d sg m i st s)) = users s"
  by (simp add: updateSignerStatus_def Let_def)

lemma users_onSubmit: "users (snd (onSubmit fails g u file data s)) = users s"
  by (simp add: onSubmit_def Let_def split: option.split)

lemma users_handleSubmit: "users (snd (handleSubmit fails g u file data s)) = users s"
  by (cases "createDocumentSchema data") (simp_all add: handleSubmit_def users_onSubmit)

lemma users_onApprove: "users (snd (onApprove fails u now d rows c s)) = users s"
  by (simp add: onApprove_def users_handleApproval split: option.split)

lemma users_onReject: "users (snd (onReject fails u now d rows c s)) = users s"
  by (simp add: onReject_def users_handleApproval split: option.split)

text \<open>
  C10. The profile row that \<open>signUp\<close> inserts, and the row the later trigger
  inserts, have \<open>is_admin\<close> set exactly when the employee code is one of the four
  literals 0001, 0002, 0003, 0004; when sign-up fails no row is added. None of the
  engine's operations (submission, approver decision through the handler or the
  card buttons, signer outcome) touches the users table.
\<close>

theorem admin_iff_employee_code:
  "users (snd (signUp fails auth_user e p code n s)) =
     (case auth_user of
        Some uid \<Rightarrow>
          if fails AuthSignUp \<or> fails InsertUser then users s
          else users s @ [\<lparr>u_id = uid, email = e, employee_code = code, full_name = n,
                           is_admin = (code \<in> {''0001'', ''0002'', ''0003'', ''0004''})\<rparr>]
      | None \<Rightarrow> users s)
   \<and> is_admin (handle_new_user uid' e code n) = (code \<in> {''0001'', ''0002'', ''0003'', ''0004''})
   \<and> users (snd (handleSubmit fails g u file data s)) = users s
   \<and> users (snd (handleApproval fails u now d i st c s)) = users s
   \<and> users (snd (onApprove fails u now d rows c s)) = users s
   \<and> users (snd (onReject fails u now d rows c s)) = users s
   \<and> users (snd (updateSignerStatus fails u now d sg m j out s)) = users s"
proof -
  have 1: "users (snd (signUp fails auth_user e p code n s)) =
     (case auth_user of
        Some uid \<Rightarrow>
          if fails AuthSignUp \<or> fails InsertUser then users s
          else users s @ [\<lparr>u_id = uid, email = e, employee_code = code, full_name = n,
                           is_admin = (code \<in> {''0001'', ''0002'', ''0003'', ''0004''})\<rparr>]
      | None \<Rightarrow> users s)"
    by (simp add: signUp_def Let_def isAdminCode_iff split: option.split)
  have 2: "is_admin (handle_new_user uid' e code n) = (code \<in> {''0001'', ''0002'', ''0003'', ''0004''})"
    by (simp add: handle_new_user_def)
  show ?thesis
    using 1 2
    by (simp only: users_handleSubmit users_handleApproval users_onApprove users_onReject
          users_updateSignerStatus simp_thms)
qed

theorem admin_iff_employee_code_witness:
  "map is_admin (users (snd (signUp no_faults (Some ''u-1'') ''a@club.com'' ''pw'' ''0003'' ''Ann'' empty_db)))
     = [True]
   \<and> map is_admin (users (snd (signUp no_faults (Some ''u-2'') ''b@club.com'' ''pw'' ''0005'' ''Ben'' empty_db)))
     = [False]
   \<and> map is_admin (users (snd (signUp no_faults (Some ''u-3'') ''c@club.com'' ''pw'' ''1'' ''Cy'' empty_db)))
     = [False]"
  using admin_iff_employee_code [of no_faults "Some ''u-1''" "''a@club.com''" "''pw''" "''0003''" "''Ann''" empty_db]
    admin_iff_employee_code [of no_faults "Some ''u-2''" "''b@club.com''" "''pw''" "''0005''" "''Ben''" empty_db]
    admin_iff_employee_code [of no_faults "Some ''u-3''" "''c@club.com''" "''pw''" "''1''" "''Cy''" empty_db]
  by (simp add: no_faults_def empty_db_def)

section \<open>Activity rows of a decision\<close>

lemma updateMessage_cases:
  "updateMessage u status rows \<in>
     {''Document rejected by one or more approvers'',
      ''Document approved by all approvers and ready for signing'',
      ''Document '' @ decision_text status @ '' by '' @ full_name_of u}"
  by (simp add: updateMessage_def Let_def)

lemma status_updates_of_handleApproval:
  "status_updates (snd (handleApproval fails u now documentId approverId status comments s)) =
     (if fst (handleApproval fails u now documentId approverId status comments s) = Inr ()
         \<and> \<not> fails InsertStatusUpdate
      then status_updates s @
             [\<lparr>su_document_id = documentId, updated_by = user_id_of u,
               su_update_type = update_type_of status,
               message = comments_or comments
                 (updateMessage u status
                    (approvers_of (update_approver approverId status comments now s) documentId))\<rparr>]
      else status_updates s)"
  by (simp add: handleApproval_def Let_def insert_status_update_def)

text \<open>
  C9, as amended. A decision appends at most one activity row. It appends exactly
  one when the call ends without an error and the activity insert is accepted; its
  kind is then the decision itself (approved or rejected) and its message is the
  supplied comments when they are a non-empty string, and otherwise one of the three
  generated summaries. In every other case nothing is appended. The card always
  passes a string, empty when nothing was typed, so an empty string counts as no
  comments.
\<close>

theorem handleApproval_appends_event:
  "\<exists>summary.
     status_updates (snd (handleApproval fails u now documentId approverId status comments s)) =
       (if fst (handleApproval fails u now documentId approverId status comments s) = Inr ()
           \<and> \<not> fails InsertStatusUpdate
        then status_updates s @
          [\<lparr>su_document_id = documentId, updated_by = user_id_of u,
            su_update_type = (case status of d_approved \<Rightarrow> u_approved | d_rejected \<Rightarrow> u_rejected),
            message = (case comments of
                         Some c \<Rightarrow> if c = [] then summary else c
                       | None \<Rightarrow> summary)\<rparr>]
        else status_updates s)
     \<and> summary \<in>
         {''Document rejected by one or more approvers'',
          ''Document approved by all approvers and ready for signing'',
          ''Document '' @ decision_text status @ '' by '' @ full_name_of u}"
proof -
  let ?m = "updateMessage u status
    (approvers_of (update_approver approverId status comments now s) documentId)"
  have ty: "update_type_of status = (case status of d_approved \<Rightarrow> u_approved | d_rejected \<Rightarrow> u_rejected)"
    by (cases status) simp_all
  have 1: "status_updates (snd (handleApproval fails u now documentId approverId status comments s)) =
       (if fst (handleApproval fails u now documentId approverId status comments s) = Inr ()
           \<and> \<not> fails InsertStatusUpdate
        then status_updates s @
          [\<lparr>su_document_id = documentId, updated_by = user_id_of u,
            su_update_type = (case status of d_approved \<Rightarrow> u_approved | d_rejected \<Rightarrow> u_rejected),
            message = (case comments of
                         Some c \<Rightarrow> if c = [] then ?m else c
                       | None \<Rightarrow> ?m)\<rparr>]
        else status_updates s)"
    unfolding status_updates_of_handleApproval [of fails u now documentId approverId status comments s]
    by (simp add: ty comments_or_def)
  have 2: "?m \<in>
         {''Document rejected by one or more approvers'',
          ''Document approved by all approvers and ready for signing'',
          ''Document '' @ decision_text status @ '' by '' @ full_name_of u}"
    by (rule updateMessage_cases)
  from 1 2 show ?thesis by blast
qed

theorem handleApproval_appends_event_witness:
  "(fst (handleApproval no_faults (Some bob) ''t1'' ''doc-1'' ''ap-2'' d_approved (Some ''Looks good'')
           (demo_db pending_approval a_approved a_pending [])) = Inr ()
      \<and> \<not> no_faults InsertStatusUpdate)
   \<and> map message (status_updates
        (snd (handleApproval no_faults (Some bob) ''t1'' ''doc-1'' ''ap-2'' d_approved (Some ''Looks good'')
                (demo_db pending_approval a_approved a_pending [])))) = [''Looks good'']
   \<and> map su_update_type (status_updates
        (snd (handleApproval no_faults (Some bob) ''t1'' ''doc-1'' ''ap-2'' d_approved (Some ''Looks good'')
                (demo_db pending_approval a_approved a_pending [])))) = [u_approved]"
proof -
  have f: "\<not> no_faults UpdateApprover" "\<not> no_faults SelectApprovers" "\<not> no_faults UpdateDocument"
    "\<not> no_faults InsertStatusUpdate"
    by (simp_all add: no_faults_def)
  have a: "fst (handleApproval no_faults (Some bob) ''t1'' ''doc-1'' ''ap-2'' d_approved (Some ''Looks good'')
           (demo_db pending_approval a_approved a_pending [])) = Inr ()
      \<and> \<not> no_faults InsertStatusUpdate"
    by (simp add: handleApproval_ok f Let_def)
  have e: "status_updates (demo_db pending_approval a_approved a_pending []) = []"
    by (simp add: demo_db_def)
  obtain summary where
    "status_updates
        (snd (handleApproval no_faults (Some bob) ''t1'' ''doc-1'' ''ap-2'' d_approved (Some ''Looks good'')
                (demo_db pending_approval a_approved a_pending []))) =
       (if fst (handleApproval no_faults (Some bob) ''t1'' ''doc-1'' ''ap-2'' d_approved (Some ''Looks good'')
                  (demo_db pending_approval a_approved a_pending [])) = Inr ()
           \<and> \<not> no_faults InsertStatusUpdate
        then status_updates (demo_db pending_approval a_approved a_pending []) @
         [\<lparr>su_document_id = ''doc-1'', updated_by = user_id_of (Some bob),
           su_update_type = (case d_approved of d_approved \<Rightarrow> u_approved | d_rejected \<Rightarrow> u_rejected),
           message = (case Some ''Looks good'' of
                        Some c \<Rightarrow> if c = [] then summary else c
                      | None \<Rightarrow> summary)\<rparr>]
        else status_updates (demo_db pending_approval a_approved a_pending []))"
    using handleApproval_appends_event [of no_faults "Some bob" "''t1''" "''doc-1''" "''ap-2''" d_approved
        "Some ''Looks good''" "demo_db pending_approval a_approved a_pending []"]
    by blast
  then show ?thesis
    using a by (simp add: e)
qed

text \<open>
  C9 as stated fails when only the activity insert is refused: the decision ends
  without an error, the document moves to in progress, and no activity row exists.
\<close>

theorem handleApproval_unchecked_insert_counterexample:
  "fst (handleApproval (only_fails InsertStatusUpdate) (Some bob) ''t1'' ''doc-1'' ''ap-2'' d_approved
          (Some ''Looks good'') (demo_db pending_approval a_approved a_pending [])) = Inr ()
   \<and> document_status
        (snd (handleApproval (only_fails InsertStatusUpdate) (Some bob) ''t1'' ''doc-1'' ''ap-2''
                d_approved (Some ''Looks good'') (demo_db pending_approval a_approved a_pending [])))
        ''doc-1'' = Some in_progress
   \<and> status_updates
        (snd (handleApproval (only_fails InsertStatusUpdate) (Some bob) ''t1'' ''doc-1'' ''ap-2''
                d_approved (Some ''Looks good'') (demo_db pending_approval a_approved a_pending [])))
       = []"
proof -
  have f: "only_fails InsertStatusUpdate InsertStatusUpdate"
    "\<not> only_fails InsertStatusUpdate UpdateApprover"
    "\<not> only_fails InsertStatusUpdate SelectApprovers"
    "\<not> only_fails InsertStatusUpdate UpdateDocument"
    by (simp_all add: only_fails_def)
  have rows: "approvers_of
      (update_approver ''ap-2'' d_approved (Some ''Looks good'') ''t1''
         (demo_db pending_approval a_approved a_pending [])) ''doc-1''
     = [demo_approver ''ap-1'' ''u-alice'' 1 a_approved,
        decided_row d_approved (Some ''Looks good'') ''t1'' (demo_approver ''ap-2'' ''u-bob'' 2 a_pending)]"
    by (simp add: update_approver_def approvers_of_def demo_db_def demo_approver_def)
  have st: "document_status (demo_db pending_approval a_approved a_pending []) ''doc-1''
      = Some pending_approval"
    by (simp add: document_status_def demo_db_def demo_document_def)
  have 1: "fst (handleApproval (only_fails InsertStatusUpdate) (Some bob) ''t1'' ''doc-1'' ''ap-2'' d_approved
          (Some ''Looks good'') (demo_db pending_approval a_approved a_pending [])) = Inr ()"
    by (simp add: handleApproval_ok f Let_def)
  have 2: "document_status
        (snd (handleApproval (only_fails InsertStatusUpdate) (Some bob) ''t1'' ''doc-1'' ''ap-2''
                d_approved (Some ''Looks good'') (demo_db pending_approval a_approved a_pending [])))
        ''doc-1'' = Some in_progress"
    using rows st by (simp add: document_status_handleApproval f demo_approver_def)
  have 3: "status_updates
        (snd (handleApproval (only_fails InsertStatusUpdate) (Some bob) ''t1'' ''doc-1'' ''ap-2''
                d_approved (Some ''Looks good'') (demo_db pending_approval a_approved a_pending [])))
       = []"
    by (simp add: status_updates_of_handleApproval f demo_db_def)
  from 1 2 3 show ?thesis by simp
qed

section \<open>Who may decide\<close>

lemma find_None_list_all: "find P xs = None \<longleftrightarrow> list_all (\<lambda>x. \<not> P x) xs"
  by (induction xs) simp_all

lemma find_Some_holds: "find P xs = Some x \<Longrightarrow> P x \<and> x \<in> set xs"
  by (induction xs) (simp_all split: if_splits)

text \<open>
  C6, as amended. The handler itself never compares the signed-in user with the
  approver row it is given. The check is made by the card's buttons: they look for
  the row of the card whose \<open>user_id\<close> is the signed-in user's id and call the
  handler with that row's id; when the card has no such row the button does nothing,
  no request is sent and the database is unchanged. No error is raised either way.
\<close>

theorem buttons_reach_own_row_only:
  "(list_all (\<lambda>a. Some (a_user_id a) \<noteq> user_id_of u) card_approvers \<longrightarrow>
      onApprove fails u now d card_approvers c s = (Inr (), s)
      \<and> onReject fails u now d card_approvers c s = (Inr (), s))
   \<and> (\<forall>a. find_own_approver u card_approvers = Some a \<longrightarrow>
         Some (a_user_id a) = user_id_of u \<and> a \<in> set card_approvers
         \<and> onApprove fails u now d card_approvers c s =
             handleApproval fails u now d (a_id a) d_approved c s
         \<and> onReject fails u now d card_approvers c s =
             handleApproval fails u now d (a_id a) d_rejected c s)"
proof -
  have 1: "list_all (\<lambda>a. Some (a_user_id a) \<noteq> user_id_of u) card_approvers \<Longrightarrow>
      find_own_approver u card_approvers = None"
    by (simp add: find_own_approver_def find_None_list_all)
  have 2: "\<And>a. find_own_approver u card_approvers = Some a \<Longrightarrow>
      Some (a_user_id a) = user_id_of u \<and> a \<in> set card_approvers"
    unfolding find_own_approver_def by (rule find_Some_holds)
  show ?thesis
    using 1 2 by (simp add: onApprove_def onReject_def)
qed

theorem buttons_reach_own_row_only_witness:
  "list_all (\<lambda>a. Some (a_user_id a) \<noteq> user_id_of (Some carol))
       [demo_approver ''ap-1'' ''u-alice'' 1 a_pending, demo_approver ''ap-2'' ''u-bob'' 2 a_pending]
   \<and> onApprove no_faults (Some carol) ''t1'' ''doc-1''
        [demo_approver ''ap-1'' ''u-alice'' 1 a_pending, demo_approver ''ap-2'' ''u-bob'' 2 a_pending]
        (Some []) (demo_db pending_approval a_pending a_pending [])
       = (Inr (), demo_db pending_approval a_pending a_pending [])
   \<and> find_own_approver (Some bob)
        [demo_approver ''ap-1'' ''u-alice'' 1 a_pending, demo_approver ''ap-2'' ''u-bob'' 2 a_pending]
       = Some (demo_approver ''ap-2'' ''u-bob'' 2 a_pending)
   \<and> onReject no_faults (Some bob) ''t1'' ''doc-1''
        [demo_approver ''ap-1'' ''u-alice'' 1 a_pending, demo_approver ''ap-2'' ''u-bob'' 2 a_pending]
        (Some []) (demo_db pending_approval a_pending a_pending [])
       = handleApproval no_faults (Some bob) ''t1'' ''doc-1'' ''ap-2'' d_rejected (Some [])
           (demo_db pending_approval a_pending a_pending [])"
proof -
  have a: "list_all (\<lambda>a. Some (a_user_id a) \<noteq> user_id_of (Some carol))
       [demo_approver ''ap-1'' ''u-alice'' 1 a_pending, demo_approver ''ap-2'' ''u-bob'' 2 a_pending]"
    by (simp add: demo_approver_def user_id_of_def carol_def)
  have b: "find_own_approver (Some bob)
        [demo_approver ''ap-1'' ''u-alice'' 1 a_pending, demo_approver ''ap-2'' ''u-bob'' 2 a_pending]
       = Some (demo_approver ''ap-2'' ''u-bob'' 2 a_pending)"
    by (simp add: find_own_approver_def demo_approver_def user_id_of_def bob_def)
  have i: "a_id (demo_approver ''ap-2'' ''u-bob'' 2 a_pending) = ''ap-2''"
    by (simp add: demo_approver_def)
  have 1: "onApprove no_faults (Some carol) ''t1'' ''doc-1''
        [demo_approver ''ap-1'' ''u-alice'' 1 a_pending, demo_approver ''ap-2'' ''u-bob'' 2 a_pending]
        (Some []) (demo_db pending_approval a_pending a_pending [])
       = (Inr (), demo_db pending_approval a_pending a_pending [])"
    using a buttons_reach_own_row_only [of "Some carol"
        "[demo_approver ''ap-1'' ''u-alice'' 1 a_pending, demo_approver ''ap-2'' ''u-bob'' 2 a_pending]"
        no_faults "''t1''" "''doc-1''" "Some []" "demo_db pending_approval a_pending a_pending []"]
    by blast
  have 2: "onReject no_faults (Some bob) ''t1'' ''doc-1''
        [demo_approver ''ap-1'' ''u-alice'' 1 a_pending, demo_approver ''ap-2'' ''u-bob'' 2 a_pending]
        (Some []) (demo_db pending_approval a_pending a_pending [])
       = handleApproval no_faults (Some bob) ''t1'' ''doc-1''
           (a_id (demo_approver ''ap-2'' ''u-bob'' 2 a_pending)) d_rejected (Some [])
           (demo_db pending_approval a_pending a_pending [])"
    using b buttons_reach_own_row_only [of "Some bob"
        "[demo_approver ''ap-1'' ''u-alice'' 1 a_pending, demo_approver ''ap-2'' ''u-bob'' 2 a_pending]"
        no_faults "''t1''" "''doc-1''" "Some []" "demo_db pending_approval a_pending a_pending []"]
    by blast
  from a 1 b 2 [unfolded i] show ?thesis
    by blast
qed

text \<open>
  C6 as stated fails on the handler: called by Bob on Alice's approver row, it
  ends without an error and an activity row in Bob's name has been appended.
\<close>

theorem handleApproval_other_subject_counterexample:
  "a_user_id (demo_approver ''ap-1'' ''u-alice'' 1 a_pending) \<noteq> u_id bob
   \<and> status_updates (demo_db pending_approval a_pending a_pending []) = []
   \<and> fst (handleApproval no_faults (Some bob) ''t1'' ''doc-1'' ''ap-1'' d_rejected (Some [])
            (demo_db pending_approval a_pending a_pending [])) = Inr ()
   \<and> map su_update_type (status_updates
        (snd (handleApproval no_faults (Some bob) ''t1'' ''doc-1'' ''ap-1'' d_rejected (Some [])
            (demo_db pending_approval a_pending a_pending [])))) = [u_rejected]
   \<and> map updated_by (status_updates
        (snd (handleApproval no_faults (Some bob) ''t1'' ''doc-1'' ''ap-1'' d_rejected (Some [])
            (demo_db pending_approval a_pending a_pending [])))) = [Some ''u-bob'']"
proof -
  have f: "\<not> no_faults UpdateApprover" "\<not> no_faults SelectApprovers" "\<not> no_faults UpdateDocument"
    "\<not> no_faults InsertStatusUpdate"
    by (simp_all add: no_faults_def)
  show ?thesis
    by (simp add: handleApproval_ok f Let_def insert_status_update_def demo_db_def
          demo_approver_def bob_def user_id_of_def)
qed

section \<open>Documents already rejected or completed\<close>

lemma recorded_row_fields [simp]:
  "s_id (recorded_row out m now x) = s_id x"
  "s_document_id (recorded_row out m now x) = s_document_id x"
  "s_status (recorded_row out m now x) = signer_status_of out"
  by (simp_all add: recorded_row_def)

lemma document_status_update_signer [simp]:
  "document_status (update_signer i out m now s) d = document_status s d"
  by (simp add: document_status_def)

lemma document_status_updateSignerStatus:
  "document_status (snd (updateSignerStatus fails u now d sg m i out s)) d =
     (if fails UpdateSigner \<or> fails UpdateDocument then document_status s d
      else if list_all (\<lambda>x. s_status x = s_signed) (updatedSigners sg i out)
      then map_option (\<lambda>_. completed) (document_status s d)
      else if list_ex (\<lambda>x. s_status x = s_rejected) (updatedSigners sg i out)
      then map_option (\<lambda>_. rejected) (document_status s d)
      else document_status s d)"
  by (simp add: updateSignerStatus_def Let_def document_status_set_same)












section \<open>Signer outcomes\<close>

lemma signers_of_after_updateSignerStatus:
  "\<not> fails UpdateSigner \<Longrightarrow>
   signers_of (snd (updateSignerStatus fails u now d sg m i out s)) d' =
     signers_of (update_signer i out m now s) d'"
  by (simp add: updateSignerStatus_def Let_def signers_of_def)

text \<open>
  C3 at a stale page. The stored rows have signer 1 signed and signer 2 pending;
  the page was loaded earlier and still shows both pending. Recording signer 2 as
  signed from that page succeeds and leaves both stored rows signed, so the stored
  rows give \<open>completed\<close>, but the document stays in progress: the handler judged
  its own copy of the rows, not the stored ones.
\<close>

theorem updateSignerStatus_stale_snapshot:
  "fst (updateSignerStatus no_faults (Some alice) ''t3'' ''doc-1'' (demo_signers s_pending s_pending) []
          ''sg-2'' o_signed (demo_db in_progress a_approved a_approved (demo_signers s_signed s_pending)))
     = Inr ()
   \<and> map s_status
        (signers_of
           (snd (updateSignerStatus no_faults (Some alice) ''t3'' ''doc-1''
                   (demo_signers s_pending s_pending) [] ''sg-2'' o_signed
                   (demo_db in_progress a_approved a_approved (demo_signers s_signed s_pending))))
           ''doc-1'')
       = [s_signed, s_signed]
   \<and> stored_signer_verdict
        (snd (updateSignerStatus no_faults (Some alice) ''t3'' ''doc-1''
                (demo_signers s_pending s_pending) [] ''sg-2'' o_signed
                (demo_db in_progress a_approved a_approved (demo_signers s_signed s_pending))))
        ''doc-1''
       = Some completed
   \<and> document_status
        (snd (updateSignerStatus no_faults (Some alice) ''t3'' ''doc-1''
                (demo_signers s_pending s_pending) [] ''sg-2'' o_signed
                (demo_db in_progress a_approved a_approved (demo_signers s_signed s_pending))))
        ''doc-1''
       = Some in_progress"
proof -
  have f: "\<not> no_faults UpdateSigner" "\<not> no_faults UpdateDocument"
    by (simp_all add: no_faults_def)
  have 1: "fst (updateSignerStatus no_faults (Some alice) ''t3'' ''doc-1'' (demo_signers s_pending s_pending) []
          ''sg-2'' o_signed (demo_db in_progress a_approved a_approved (demo_signers s_signed s_pending)))
     = Inr ()"
    by (simp add: updateSignerStatus_def f Let_def)
  have 2: "signers_of
           (snd (updateSignerStatus no_faults (Some alice) ''t3'' ''doc-1''
                   (demo_signers s_pending s_pending) [] ''sg-2'' o_signed
                   (demo_db in_progress a_approved a_approved (demo_signers s_signed s_pending))))
           ''doc-1''
       = [demo_signer ''sg-1'' 1 s_signed,
          recorded_row o_signed [] ''t3'' (demo_signer ''sg-2'' 2 s_pending)]"
    unfolding signers_of_after_updateSignerStatus [of no_faults, OF f(1)]
    by (simp add: signers_of_def update_signer_def demo_db_def demo_signers_def demo_signer_def)
  have 3: "map s_status (updatedSigners (demo_signers s_pending s_pending) ''sg-2'' o_signed)
       = [s_pending, s_signed]"
    by (simp add: updatedSigners_def demo_signers_def demo_signer_def)
  have 4: "document_status (demo_db in_progress a_approved a_approved (demo_signers s_signed s_pending))
             ''doc-1'' = Some in_progress"
    by (simp add: document_status_def demo_db_def demo_document_def)
  have 5: "\<not> list_all (\<lambda>x. s_status x = s_signed)
               (updatedSigners (demo_signers s_pending s_pending) ''sg-2'' o_signed)"
    "\<not> list_ex (\<lambda>x. s_status x = s_rejected)
               (updatedSigners (demo_signers s_pending s_pending) ''sg-2'' o_signed)"
    using 3 by (simp_all add: updatedSigners_def demo_signers_def demo_signer_def)
  show ?thesis
    using 1 2 4 5
    by (simp add: f stored_signer_verdict_def document_status_updateSignerStatus demo_signer_def)
qed

lemma statuses_of_fresh_copy:
  "map s_status (updatedSigners (signers_of s d) i out)
     = map s_status (signers_of (update_signer i out m now s) d)"
proof -
  have "map s_status
          (map (\<lambda>x. if s_id x = i then x\<lparr>s_status := signer_status_of out\<rparr> else x)
             (filter (\<lambda>x. s_document_id x = d) xs))
        = map s_status
            (filter (\<lambda>x. s_document_id x = d)
               (map (\<lambda>x. if s_id x = i then recorded_row out m now x else x) xs))" for xs
    by (induction xs) simp_all
  then show ?thesis
    by (simp add: updatedSigners_def signers_of_def update_signer_def)
qed

lemma list_all_status: "list_all (\<lambda>x. s_status x = t) xs = list_all (\<lambda>z. z = t) (map s_status xs)"
  by (simp add: list.pred_map comp_def)

lemma list_ex_status: "list_ex (\<lambda>x. s_status x = t) xs = list_ex (\<lambda>z. z = t) (map s_status xs)"
  by (induction xs) simp_all

lemma all_signed_none_rejected:
  "list_all (\<lambda>z. z = s_signed) ts \<Longrightarrow> \<not> list_ex (\<lambda>z. z = s_rejected) ts"
  by (induction ts) simp_all

text \<open>
  When the page's copy is the stored rows of the document and the requests are
  answered, the handler does reach the status the stored rows give.
\<close>

lemma updateSignerStatus_fresh_copy:
  assumes ok: "\<not> fails UpdateSigner" "\<not> fails UpdateDocument"
    and ex: "document_status s d = Some st"
  shows "document_status (snd (updateSignerStatus fails u now d (signers_of s d) m i out s)) d =
     Some (case stored_signer_verdict
                 (snd (updateSignerStatus fails u now d (signers_of s d) m i out s)) d of
             Some v \<Rightarrow> v | None \<Rightarrow> st)"
proof -
  define ts where "ts = map s_status (signers_of (update_signer i out m now s) d)"
  have a: "list_all (\<lambda>x. s_status x = s_signed) (updatedSigners (signers_of s d) i out)
             = list_all (\<lambda>z. z = s_signed) ts"
    "list_ex (\<lambda>x. s_status x = s_rejected) (updatedSigners (signers_of s d) i out)
             = list_ex (\<lambda>z. z = s_rejected) ts"
    unfolding ts_def list_all_status [of _ "updatedSigners (signers_of s d) i out"]
      list_ex_status [of _ "updatedSigners (signers_of s d) i out"]
    by (simp_all only: statuses_of_fresh_copy [of s d i out m now])
  have b: "stored_signer_verdict (snd (updateSignerStatus fails u now d (signers_of s d) m i out s)) d
      = (if list_ex (\<lambda>z. z = s_rejected) ts then Some rejected
         else if list_all (\<lambda>z. z = s_signed) ts then Some completed else None)"
    unfolding stored_signer_verdict_def signers_of_after_updateSignerStatus [of fails, OF ok(1)]
      list_all_status [of _ "signers_of (update_signer i out m now s) d"]
      list_ex_status [of _ "signers_of (update_signer i out m now s) d"]
    by (simp add: ts_def)
  show ?thesis
    using all_signed_none_rejected [of ts] ok ex
    by (simp add: document_status_updateSignerStatus a b)
qed

section \<open>Order of the decisions\<close>

lemma no_faults_simps [simp]: "\<not> no_faults r"
  by (simp add: no_faults_def)

lemma approvers_handleApproval_ok:
  "approvers (snd (handleApproval no_faults u now d i st c s)) = map (\<lambda>a. if a_id a = i then decided_row st c now a else a) (approvers s)"
  by (simp add: handleApproval_ok Let_def update_approver_def)

lemma final_row_Nil [simp]: "final_row [] a = a"
  by (simp add: final_row_def)

lemma final_row_Cons [simp]: "final_row (c # cs) a = final_row cs (step_row c a)"
  by (simp add: final_row_def)

lemma step_row_fields [simp]:
  "a_id (step_row c a) = a_id a"
  "a_document_id (step_row c a) = a_document_id a"
  by (simp_all add: step_row_def)

lemma final_row_fields [simp]:
  "a_id (final_row cs a) = a_id a"
  "a_document_id (final_row cs a) = a_document_id a"
  by (induction cs arbitrary: a) simp_all

lemma approvers_run_decisions:
  "approvers (run_decisions d cs s) = map (final_row cs) (approvers s)"
proof (induction cs arbitrary: s)
  case Nil
  show ?case by simp
next
  case (Cons c cs)
  have "map (\<lambda>a. if a_id a = dc_approver_id c
                 then decided_row (dc_status c) (dc_comments c) (dc_now c) a else a) (approvers s)
        = map (step_row c) (approvers s)"
    by (simp add: step_row_def)
  then show ?case
    by (simp add: Cons.IH approvers_handleApproval_ok comp_def)
qed

lemma approvers_of_run_decisions:
  "approvers_of (run_decisions d cs s) d' = map (final_row cs) (approvers_of s d')"
  by (simp add: approvers_of_def approvers_run_decisions filter_map comp_def)

lemma final_row_untouched:
  "a_id a \<notin> dc_approver_id ` set cs \<Longrightarrow> final_row cs a = a"
  by (induction cs arbitrary: a) (simp_all add: step_row_def)

lemma final_row_status:
  "distinct (map dc_approver_id cs) \<Longrightarrow> c \<in> set cs \<Longrightarrow> dc_approver_id c = a_id a \<Longrightarrow>
     a_status (final_row cs a) = approver_status_of (dc_status c)"
proof (induction cs arbitrary: a)
  case Nil
  then show ?case by simp
next
  case (Cons x xs)
  show ?case
  proof (cases "c = x")
    case True
    have "a_id (step_row x a) \<notin> dc_approver_id ` set xs"
      using Cons.prems(1,3) True by simp
    then have "final_row xs (step_row x a) = step_row x a"
      by (rule final_row_untouched)
    then show ?thesis
      using Cons.prems(3) True by (simp add: step_row_def)
  next
    case False
    have "distinct (map dc_approver_id xs)" using Cons.prems(1) by simp
    moreover have "c \<in> set xs" using False Cons.prems(2) by simp
    moreover have "dc_approver_id c = a_id (step_row x a)" using Cons.prems(3) by simp
    ultimately have "a_status (final_row xs (step_row x a)) = approver_status_of (dc_status c)"
      by (rule Cons.IH)
    then show ?thesis by simp
  qed
qed

lemma run_decisions_snoc:
  "run_decisions d (bs @ [c]) s =
     snd (handleApproval no_faults (dc_user c) (dc_now c) d (dc_approver_id c) (dc_status c)
            (dc_comments c) (run_decisions d bs s))"
  by (induction bs arbitrary: s) simp_all

lemma document_exists_handleApproval:
  "document_status (snd (handleApproval fails u now d i st c s)) d = None \<longleftrightarrow> document_status s d = None"
  by (simp add: document_status_handleApproval)

lemma document_exists_run_decisions:
  "document_status (run_decisions d cs s) d = None \<longleftrightarrow> document_status s d = None"
  by (induction cs arbitrary: s) (simp_all add: document_exists_handleApproval)


lemma status_after_last_decision:
  assumes "cs \<noteq> []"
  shows "document_status (run_decisions d cs s) d =
     (if list_ex (\<lambda>a. a_status a = a_rejected) (approvers_of (run_decisions d cs s) d)
      then map_option (\<lambda>_. rejected) (document_status s d)
      else if list_all (\<lambda>a. a_status a = a_approved) (approvers_of (run_decisions d cs s) d)
      then map_option (\<lambda>_. in_progress) (document_status s d)
      else document_status (run_decisions d (butlast cs) s) d)"
proof -
  obtain bs c where cs: "cs = bs @ [c]"
    using assms by (metis append_butlast_last_id)
  define s' where "s' = run_decisions d bs s"
  have rows: "approvers_of (run_decisions d cs s) d =
      approvers_of (update_approver (dc_approver_id c) (dc_status c) (dc_comments c) (dc_now c) s') d"
    by (simp add: cs run_decisions_snoc handleApproval_ok Let_def s'_def approvers_of_def)
  have ex: "map_option (\<lambda>_. v) (document_status s' d) = map_option (\<lambda>_. v) (document_status s d)" for v
    using document_exists_run_decisions [of d bs s] unfolding s'_def
    by (cases "document_status (run_decisions d bs s) d"; cases "document_status s d") simp_all
  show ?thesis
    unfolding rows
    by (simp add: cs run_decisions_snoc document_status_handleApproval ex flip: s'_def)
qed


lemma approver_status_of_rejected [simp]:
  "approver_status_of st = a_rejected \<longleftrightarrow> st = d_rejected"
  "approver_status_of st = a_approved \<longleftrightarrow> st = d_approved"
  "approver_status_of st \<noteq> a_pending"
  by (cases st; simp)+

lemma decided_rows_rejected_iff:
  assumes dist: "distinct (map dc_approver_id cs)"
    and cover: "set (map dc_approver_id cs) = set (map a_id rows)"
  shows "list_ex (\<lambda>a. a_status a = a_rejected) (map (final_row cs) rows)
           \<longleftrightarrow> list_ex (\<lambda>c. dc_status c = d_rejected) cs"
proof
  assume "list_ex (\<lambda>a. a_status a = a_rejected) (map (final_row cs) rows)"
  then obtain a where a: "a \<in> set rows" "a_status (final_row cs a) = a_rejected"
    unfolding list_ex_iff set_map by blast
  from a(1) have "a_id a \<in> set (map a_id rows)" by simp
  with cover have "a_id a \<in> dc_approver_id ` set cs" by simp
  then obtain c where c: "c \<in> set cs" "dc_approver_id c = a_id a" by (metis imageE)
  from final_row_status [OF dist c] a(2) have "dc_status c = d_rejected"
    by (cases "dc_status c") simp_all
  with c(1) show "list_ex (\<lambda>c. dc_status c = d_rejected) cs"
    unfolding list_ex_iff by blast
next
  assume "list_ex (\<lambda>c. dc_status c = d_rejected) cs"
  then obtain c where c: "c \<in> set cs" "dc_status c = d_rejected"
    unfolding list_ex_iff by blast
  from c(1) have "dc_approver_id c \<in> set (map dc_approver_id cs)" by simp
  with cover have "dc_approver_id c \<in> a_id ` set rows" by simp
  then obtain a where a: "a \<in> set rows" "dc_approver_id c = a_id a" by blast
  from final_row_status [OF dist c(1) a(2)] c(2) have "a_status (final_row cs a) = a_rejected"
    by simp
  with a(1) have "\<exists>x \<in> final_row cs ` set rows. a_status x = a_rejected" by blast
  then show "list_ex (\<lambda>a. a_status a = a_rejected) (map (final_row cs) rows)"
    unfolding list_ex_iff set_map .
qed

lemma decided_rows_approved:
  assumes dist: "distinct (map dc_approver_id cs)"
    and cover: "set (map dc_approver_id cs) = set (map a_id rows)"
    and none: "\<not> list_ex (\<lambda>c. dc_status c = d_rejected) cs"
  shows "list_all (\<lambda>a. a_status a = a_approved) (map (final_row cs) rows)"
proof -
  have "a_status (final_row cs a) = a_approved" if "a \<in> set rows" for a
  proof -
    from that have "a_id a \<in> set (map a_id rows)" by simp
    with cover have "a_id a \<in> dc_approver_id ` set cs" by simp
    then obtain c where c: "c \<in> set cs" "dc_approver_id c = a_id a" by (metis imageE)
    from none c(1) have "dc_status c \<noteq> d_rejected"
      unfolding list_ex_iff by blast
    then have "dc_status c = d_approved" by (cases "dc_status c") simp_all
    with final_row_status [OF dist c] show ?thesis by simp
  qed
  then show ?thesis
    unfolding list_all_iff set_map by blast
qed

lemma decisions_final_status:
  assumes ex: "document_status s d = Some st"
    and ne: "cs \<noteq> []"
    and dist: "distinct (map dc_approver_id cs)"
    and cover: "set (map dc_approver_id cs) = set (map a_id (approvers_of s d))"
  shows "document_status (run_decisions d cs s) d =
     Some (if list_ex (\<lambda>c. dc_status c = d_rejected) cs then rejected else in_progress)"
proof (cases "list_ex (\<lambda>c. dc_status c = d_rejected) cs")
  case True
  then have "list_ex (\<lambda>a. a_status a = a_rejected) (approvers_of (run_decisions d cs s) d)"
    by (simp add: approvers_of_run_decisions decided_rows_rejected_iff [OF dist cover])
  with True ex show ?thesis
    by (simp add: status_after_last_decision [OF ne])
next
  case False
  then have 1: "\<not> list_ex (\<lambda>a. a_status a = a_rejected) (approvers_of (run_decisions d cs s) d)"
    by (simp add: approvers_of_run_decisions decided_rows_rejected_iff [OF dist cover])
  have 2: "list_all (\<lambda>a. a_status a = a_approved) (approvers_of (run_decisions d cs s) d)"
    using decided_rows_approved [OF dist cover False]
    by (simp add: approvers_of_run_decisions)
  from 1 2 False ex show ?thesis
    by (simp add: status_after_last_decision [OF ne])
qed

text \<open>
  C5. Take a stored document and one decision for each of its approver rows, every
  request answered. After all of them the document is rejected when at least one
  decision was a rejection and in progress when all were approvals, and any
  reordering of the same decisions ends in the same status.
\<close>

theorem decisions_order_independent:
  assumes ex: "document_status s d = Some st"
    and ne: "cs \<noteq> []"
    and dist: "distinct (map dc_approver_id cs)"
    and cover: "set (map dc_approver_id cs) = set (map a_id (approvers_of s d))"
    and perm: "mset cs' = mset cs"
  shows "document_status (run_decisions d cs' s) d = document_status (run_decisions d cs s) d
     \<and> document_status (run_decisions d cs s) d =
         Some (if list_ex (\<lambda>c. dc_status c = d_rejected) cs then rejected else in_progress)"
proof -
  have m: "mset (map dc_approver_id cs') = mset (map dc_approver_id cs)"
    using perm by simp
  have ne': "cs' \<noteq> []"
    using perm ne by auto
  have dist': "distinct (map dc_approver_id cs')"
    using m dist by (metis mset_eq_imp_distinct_iff)
  have cover': "set (map dc_approver_id cs') = set (map a_id (approvers_of s d))"
    using m cover by (metis mset_eq_setD)
  have same: "list_ex (\<lambda>c. dc_status c = d_rejected) cs' = list_ex (\<lambda>c. dc_status c = d_rejected) cs"
    using mset_eq_setD [OF perm] by (simp add: list_ex_iff)
  show ?thesis
    by (simp add: decisions_final_status [OF ex ne dist cover]
          decisions_final_status [OF ex ne' dist' cover'] same)
qed


theorem decisions_order_independent_witness:
  "document_status demo_db3 ''doc-1'' = Some pending_approval
   \<and> [demo_call alice ''ap-1'' d_approved, demo_call bob ''ap-2'' d_rejected,
       demo_call dave ''ap-3'' d_approved] \<noteq> []
   \<and> distinct (map dc_approver_id
        [demo_call alice ''ap-1'' d_approved, demo_call bob ''ap-2'' d_rejected,
         demo_call dave ''ap-3'' d_approved])
   \<and> set (map dc_approver_id
        [demo_call alice ''ap-1'' d_approved, demo_call bob ''ap-2'' d_rejected,
         demo_call dave ''ap-3'' d_approved])
       = set (map a_id (approvers_of demo_db3 ''doc-1''))
   \<and> mset [demo_call dave ''ap-3'' d_approved, demo_call alice ''ap-1'' d_approved,
            demo_call bob ''ap-2'' d_rejected]
       = mset [demo_call alice ''ap-1'' d_approved, demo_call bob ''ap-2'' d_rejected,
               demo_call dave ''ap-3'' d_approved]
   \<and> document_status
        (run_decisions ''doc-1''
           [demo_call dave ''ap-3'' d_approved, demo_call alice ''ap-1'' d_approved,
            demo_call bob ''ap-2'' d_rejected] demo_db3) ''doc-1'' = Some rejected
   \<and> document_status
        (run_decisions ''doc-1''
           [demo_call alice ''ap-1'' d_approved, demo_call bob ''ap-2'' d_rejected,
            demo_call dave ''ap-3'' d_approved] demo_db3) ''doc-1'' = Some rejected"
proof -
  have ex: "document_status demo_db3 ''doc-1'' = Some pending_approval"
    by (simp add: document_status_def demo_db3_def demo_document_def)
  have ne: "[demo_call alice ''ap-1'' d_approved, demo_call bob ''ap-2'' d_rejected,
       demo_call dave ''ap-3'' d_approved] \<noteq> []"
    by simp
  have dist: "distinct (map dc_approver_id
        [demo_call alice ''ap-1'' d_approved, demo_call bob ''ap-2'' d_rejected,
         demo_call dave ''ap-3'' d_approved])"
    by (simp add: demo_call_def)
  have cover: "set (map dc_approver_id
        [demo_call alice ''ap-1'' d_approved, demo_call bob ''ap-2'' d_rejected,
         demo_call dave ''ap-3'' d_approved])
       = set (map a_id (approvers_of demo_db3 ''doc-1''))"
    by (simp add: demo_call_def approvers_of_def demo_db3_def demo_approver_def)
  have perm: "mset [demo_call dave ''ap-3'' d_approved, demo_call alice ''ap-1'' d_approved,
            demo_call bob ''ap-2'' d_rejected]
       = mset [demo_call alice ''ap-1'' d_approved, demo_call bob ''ap-2'' d_rejected,
               demo_call dave ''ap-3'' d_approved]"
    by (simp add: add_mset_commute)
  have rej: "list_ex (\<lambda>c. dc_status c = d_rejected)
       [demo_call alice ''ap-1'' d_approved, demo_call bob ''ap-2'' d_rejected,
        demo_call dave ''ap-3'' d_approved]"
    by (simp add: demo_call_def)
  from decisions_order_independent [OF ex ne dist cover perm] rej
  have "document_status
        (run_decisions ''doc-1''
           [demo_call dave ''ap-3'' d_approved, demo_call alice ''ap-1'' d_approved,
            demo_call bob ''ap-2'' d_rejected] demo_db3) ''doc-1'' = Some rejected
   \<and> document_status
        (run_decisions ''doc-1''
           [demo_call alice ''ap-1'' d_approved, demo_call bob ''ap-2'' d_rejected,
            demo_call dave ''ap-3'' d_approved] demo_db3) ''doc-1'' = Some rejected"
    by simp
  with ex ne dist cover perm show ?thesis
    by blast
qed

end
